theory Spec2Isabelle
  imports Main "HOL-Library.Sublist"
begin

section \<open>JavaScript strings\<close>

text \<open>
  A JavaScript string is a sequence of UTF-16 code units. A code unit is modelled as a
  natural number (every theorem below holds for all lists of naturals, so in particular
  for all lists of 16-bit values). \<open>str\<close> turns an ASCII literal of the source into its
  code units.
\<close>

type_synonym jsstring = "nat list"

definition str :: "string \<Rightarrow> jsstring" where
  "str s = map of_char s"

definition dq :: jsstring where
  "dq = [0x22]"

definition joinLines :: "jsstring list \<Rightarrow> jsstring" where
  "joinLines ls = (case ls of [] \<Rightarrow> [] | l # rest \<Rightarrow> l @ concat (map (\<lambda>x. 0x0A # x) rest))"

text \<open>
  The set matched by the regular expression class \<open>\s\<close> and stripped by
  \<open>String.prototype.trim\<close>: WhiteSpace and LineTerminator of ECMAScript.
\<close>

definition isWhiteSpace :: "nat \<Rightarrow> bool" where
  "isWhiteSpace c =
     (c = 0x09 \<or> c = 0x0A \<or> c = 0x0B \<or> c = 0x0C \<or> c = 0x0D \<or> c = 0x20 \<or> c = 0xA0
      \<or> c = 0x1680 \<or> (0x2000 \<le> c \<and> c \<le> 0x200A) \<or> c = 0x2028 \<or> c = 0x2029
      \<or> c = 0x202F \<or> c = 0x205F \<or> c = 0x3000 \<or> c = 0xFEFF)"

definition trim :: "jsstring \<Rightarrow> jsstring" where
  "trim s = rev (dropWhile isWhiteSpace (rev (dropWhile isWhiteSpace s)))"

definition asciiLower :: "nat \<Rightarrow> nat" where
  "asciiLower c = (if 0x41 \<le> c \<and> c \<le> 0x5A then c + 0x20 else c)"

text \<open>
  \<open>String.prototype.toLowerCase\<close>. On a string of ASCII code units it maps \<open>A\<close>..\<open>Z\<close> to
  \<open>a\<close>..\<open>z\<close> and leaves the rest. On any other string the result comes from the
  Unicode case tables of the JavaScript runtime, which are not part of the repository:
  they are the parameter \<open>unicodeLower\<close>, about which nothing is assumed.
\<close>

definition toLowerCase :: "(jsstring \<Rightarrow> jsstring) \<Rightarrow> jsstring \<Rightarrow> jsstring" where
  "toLowerCase unicodeLower s =
     (if list_all (\<lambda>c. c < 0x80) s then map asciiLower s else unicodeLower s)"

text \<open>
  \<open>s.replace(/C/g, r)\<close> for a class \<open>C\<close> of single code units: every match is one code
  unit, replaced by \<open>r\<close>; the rest is copied.
\<close>

definition replaceEach :: "(nat \<Rightarrow> bool) \<Rightarrow> jsstring \<Rightarrow> jsstring \<Rightarrow> jsstring" where
  "replaceEach C r s = concat (map (\<lambda>c. if C c then r else [c]) s)"

text \<open>
  \<open>s.replace(/C+/g, r)\<close>: scanning from the left, a code unit of the class starts a match
  that greedily takes the whole run; the run is replaced by \<open>r\<close> and scanning goes on
  after it.
\<close>

function replaceRuns :: "(nat \<Rightarrow> bool) \<Rightarrow> jsstring \<Rightarrow> jsstring \<Rightarrow> jsstring" where
  "replaceRuns C r [] = []"
| "replaceRuns C r (c # cs) =
     (if C c then r @ replaceRuns C r (dropWhile C cs) else c # replaceRuns C r cs)"
  by pat_completeness auto
termination
  by (relation "measure (\<lambda>(C, r, s). length s)")
     (auto simp: le_imp_less_Suc length_dropWhile_le)

section \<open>Annotation JSON types (types.ts)\<close>

datatype EntityCategory =
    Organization
  | Program
  | Service
  | Benefit
  | Citizen_attribute
  | Value
  | Official_role
  | Region
  | Delivery_node
  | Document
  | Domain_issue

text \<open>The string a category is in the JSON and in a template (\<open>${entity.category}\<close>).\<close>

fun categoryName :: "EntityCategory \<Rightarrow> jsstring" where
  "categoryName Organization = str ''organization''"
| "categoryName Program = str ''program''"
| "categoryName Service = str ''service''"
| "categoryName Benefit = str ''benefit''"
| "categoryName Citizen_attribute = str ''citizen_attribute''"
| "categoryName Value = str ''value''"
| "categoryName Official_role = str ''official_role''"
| "categoryName Region = str ''region''"
| "categoryName Delivery_node = str ''delivery_node''"
| "categoryName Document = str ''document''"
| "categoryName Domain_issue = str ''domain_issue''"

record DocumentInfo =
  doc_id :: jsstring
  doc_path :: jsstring
  doc_subject :: jsstring

record AnnotationEntity =
  ent_id :: jsstring
  ent_text :: jsstring
  ent_start :: int
  ent_end :: int
  ent_category :: EntityCategory

record AnnotationRelationship =
  rel_id :: jsstring
  source_entity_id :: jsstring
  target_entity_id :: jsstring
  rel_type :: jsstring
  rel_label :: jsstring

record AnnotationDocument =
  document :: DocumentInfo
  entities :: "AnnotationEntity list"
  ann_relationships :: "AnnotationRelationship list option"
  saved_at :: "jsstring option"

record DgraphTypeMapping =
  dgraphType :: jsstring
  nameIdPrefix :: jsstring
  nameField :: jsstring

fun CATEGORY_TYPE_MAP :: "EntityCategory \<Rightarrow> DgraphTypeMapping" where
  "CATEGORY_TYPE_MAP Organization =
     \<lparr>dgraphType = str ''_Indian_Union_Government_Ministry_'',
      nameIdPrefix = str ''org'',
      nameField = str ''indian_union_government_ministry''\<rparr>"
| "CATEGORY_TYPE_MAP Program =
     \<lparr>dgraphType = str ''_Indian_Union_Government_Ministry_Program_'',
      nameIdPrefix = str ''prog'',
      nameField = str ''indian_union_government_ministry_program''\<rparr>"
| "CATEGORY_TYPE_MAP Service =
     \<lparr>dgraphType = str ''_Indian_Union_Government_Service_'',
      nameIdPrefix = str ''svc'',
      nameField = str ''indian_union_government_service''\<rparr>"
| "CATEGORY_TYPE_MAP Benefit =
     \<lparr>dgraphType = str ''_Indian_Union_Government_Service_Benefit_'',
      nameIdPrefix = str ''ben'',
      nameField = str ''indian_union_government_service_benefit''\<rparr>"
| "CATEGORY_TYPE_MAP Citizen_attribute =
     \<lparr>dgraphType = str ''_Citizen_Attribute_Category_'',
      nameIdPrefix = str ''cattr'',
      nameField = str ''citizen_attribute_category''\<rparr>"
| "CATEGORY_TYPE_MAP Value =
     \<lparr>dgraphType = str ''_Metric_'',
      nameIdPrefix = str ''metric'',
      nameField = str ''metric''\<rparr>"
| "CATEGORY_TYPE_MAP Official_role =
     \<lparr>dgraphType = str ''_Indian_Government_Official_Role_'',
      nameIdPrefix = str ''role'',
      nameField = str ''indian_government_official_role''\<rparr>"
| "CATEGORY_TYPE_MAP Region =
     \<lparr>dgraphType = str ''_Indian_State_Union_Territory_'',
      nameIdPrefix = str ''region'',
      nameField = str ''indian_state_union_territory''\<rparr>"
| "CATEGORY_TYPE_MAP Delivery_node =
     \<lparr>dgraphType = str ''_Indian_Union_Government_Service_Delivery_Node_'',
      nameIdPrefix = str ''dnode'',
      nameField = str ''indian_union_government_service_delivery_node''\<rparr>"
| "CATEGORY_TYPE_MAP Document =
     \<lparr>dgraphType = str ''_Source_'',
      nameIdPrefix = str ''doc'',
      nameField = str ''map_data_source_name''\<rparr>"
| "CATEGORY_TYPE_MAP Domain_issue =
     \<lparr>dgraphType = str ''_Domain_Issue_'',
      nameIdPrefix = str ''issue'',
      nameField = str ''domain_issue''\<rparr>"

text \<open>
  The optional field \<open>variables\<close> of a generated mutation is never set by the generator
  and is left out.
\<close>

record GeneratedMutation =
  description :: jsstring
  mutation :: jsstring

record BatchSummary =
  totalNameNodes :: nat
  totalEntityNodes :: nat
  totalRelationships :: nat
  categoryCounts :: "(EntityCategory \<times> nat) list"

record MutationBatch =
  documentId :: jsstring
  documentPath :: jsstring
  nameNodes :: "GeneratedMutation list"
  entityNodes :: "GeneratedMutation list"
  relationships :: "GeneratedMutation list"
  summary :: BatchSummary

section \<open>The generator (generate-mutations.ts)\<close>

definition isIdChar :: "nat \<Rightarrow> bool" where
  "isIdChar c = ((0x61 \<le> c \<and> c \<le> 0x7A) \<or> (0x30 \<le> c \<and> c \<le> 0x39) \<or> c = 0x5F \<or> c = 0x2D)"

definition normalizeText :: "(jsstring \<Rightarrow> jsstring) \<Rightarrow> jsstring \<Rightarrow> jsstring" where
  "normalizeText unicodeLower t =
     replaceEach (\<lambda>c. \<not> isIdChar c) []
       (replaceRuns isWhiteSpace (str ''_'')
         (trim (toLowerCase unicodeLower t)))"

definition generateNameId :: "(jsstring \<Rightarrow> jsstring) \<Rightarrow> AnnotationEntity \<Rightarrow> jsstring" where
  "generateNameId unicodeLower entity =
     (let mapping = CATEGORY_TYPE_MAP (ent_category entity);
          normalized = normalizeText unicodeLower (ent_text entity)
      in nameIdPrefix mapping @ str ''::'' @ normalized)"

definition escapeGraphQL :: "jsstring \<Rightarrow> jsstring" where
  "escapeGraphQL s =
     replaceEach (\<lambda>c. c = 0x09) [0x5C, 0x74]
       (replaceEach (\<lambda>c. c = 0x0D) [0x5C, 0x72]
         (replaceEach (\<lambda>c. c = 0x0A) [0x5C, 0x6E]
           (replaceEach (\<lambda>c. c = 0x22) [0x5C, 0x22]
             (replaceEach (\<lambda>c. c = 0x5C) [0x5C, 0x5C] s))))"

subsection \<open>Entry-node mutations\<close>

text \<open>
  The \<open>Map\<close> of the source keeps its entries in insertion order; it is an association
  list to which a new key is appended.
\<close>

definition map_has :: "(jsstring \<times> AnnotationEntity) list \<Rightarrow> jsstring \<Rightarrow> bool" where
  "map_has m k = (k \<in> set (map fst m))"

fun uniqueNames :: "(jsstring \<times> AnnotationEntity) list \<Rightarrow> AnnotationEntity list
    \<Rightarrow> (jsstring \<times> AnnotationEntity) list" where
  "uniqueNames m [] = m"
| "uniqueNames m (entity # rest) =
     (let key = trim (ent_text entity)
      in if \<not> map_has m key then uniqueNames (m @ [(key, entity)]) rest
         else uniqueNames m rest)"

definition nameMutation :: "AnnotationEntity \<Rightarrow> GeneratedMutation" where
  "nameMutation entity =
     \<lparr>description = str ''_Name_ node for '' @ dq @ ent_text entity @ dq,
      mutation = joinLines
        [str ''mutation {'',
         str ''  add_Name_(input: [{'',
         str ''    name: '' @ dq @ escapeGraphQL (trim (ent_text entity)) @ dq,
         str ''  }], upsert: true) {'',
         str ''    _Name_ {'',
         str ''      name'',
         str ''    }'',
         str ''  }'',
         str ''}'']\<rparr>"

definition generateNameMutations :: "AnnotationEntity list \<Rightarrow> GeneratedMutation list" where
  "generateNameMutations ents = map nameMutation (map snd (uniqueNames [] ents))"

subsection \<open>Typed-node mutations\<close>

text \<open>
  \<open>new Date().toISOString()\<close> is read once for every entity. The readings are the
  parameter \<open>now\<close> of \<open>entityMutation\<close>; \<open>generateEntityMutations\<close> takes the clock as the
  function that gives the reading made for the entity at each index.
\<close>

definition entityDescription :: "jsstring \<Rightarrow> AnnotationEntity \<Rightarrow> jsstring" where
  "entityDescription dgType entity =
     dgType @ str '' for '' @ dq @ ent_text entity @ dq @ str '' ['' @
     categoryName (ent_category entity) @ str '']''"

definition entityMutation :: "(jsstring \<Rightarrow> jsstring) \<Rightarrow> jsstring \<Rightarrow> AnnotationEntity
    \<Rightarrow> GeneratedMutation" where
  "entityMutation unicodeLower now entity =
     (let mapping = CATEGORY_TYPE_MAP (ent_category entity);
          nameId = generateNameId unicodeLower entity;
          dgType = dgraphType mapping
      in case ent_category entity of
           Value \<Rightarrow>
             \<lparr>description = entityDescription (str ''_Data_Value_'') entity,
              mutation = joinLines
                [str ''mutation {'',
                 str ''  add_Data_Value_(input: [{'',
                 str ''    categorical_value: '' @ dq @ escapeGraphQL (trim (ent_text entity)) @ dq,
                 str ''  }]) {'',
                 str ''    _Data_Value_ {'',
                 str ''      categorical_value'',
                 str ''    }'',
                 str ''  }'',
                 str ''}'']\<rparr>
         | Benefit \<Rightarrow>
             \<lparr>description = entityDescription dgType entity,
              mutation = joinLines
                [str ''mutation {'',
                 str ''  add'' @ dgType @ str ''(input: [{'',
                 str ''    names: [{ name: '' @ dq @ escapeGraphQL (trim (ent_text entity)) @ dq
                   @ str '' }]'',
                 str ''    node_created_on: '' @ dq @ now @ dq,
                 str ''  }]) {'',
                 str ''    '' @ dgType @ str '' {'',
                 str ''      id'',
                 str ''    }'',
                 str ''  }'',
                 str ''}'']\<rparr>
         | Document \<Rightarrow>
             \<lparr>description = entityDescription dgType entity,
              mutation = joinLines
                [str ''mutation {'',
                 str ''  add'' @ dgType @ str ''(input: [{'',
                 str ''    name_id: '' @ dq @ escapeGraphQL nameId @ dq,
                 str ''    names: [{ name: '' @ dq @ escapeGraphQL (trim (ent_text entity)) @ dq
                   @ str '' }]'',
                 str ''  }], upsert: true) {'',
                 str ''    '' @ dgType @ str '' {'',
                 str ''      name_id'',
                 str ''    }'',
                 str ''  }'',
                 str ''}'']\<rparr>
         | _ \<Rightarrow>
             \<lparr>description = entityDescription dgType entity,
              mutation = joinLines
                [str ''mutation {'',
                 str ''  add'' @ dgType @ str ''(input: [{'',
                 str ''    name_id: '' @ dq @ escapeGraphQL nameId @ dq,
                 str ''    names: [{ name: '' @ dq @ escapeGraphQL (trim (ent_text entity)) @ dq
                   @ str '' }]'',
                 str ''    node_created_on: '' @ dq @ now @ dq,
                 str ''  }], upsert: true) {'',
                 str ''    '' @ dgType @ str '' {'',
                 str ''      name_id'',
                 str ''    }'',
                 str ''  }'',
                 str ''}'']\<rparr>)"

definition generateEntityMutations :: "(jsstring \<Rightarrow> jsstring) \<Rightarrow> (nat \<Rightarrow> jsstring)
    \<Rightarrow> AnnotationEntity list \<Rightarrow> GeneratedMutation list" where
  "generateEntityMutations unicodeLower clock ents =
     map (\<lambda>(i, entity). entityMutation unicodeLower (clock i) entity)
       (zip [0..<length ents] ents)"

subsection \<open>Batch assembly\<close>

text \<open>
  \<open>categoryCounts\<close> is a plain object used as a dictionary: reading a missing key gives
  \<open>undefined\<close> (here \<open>None\<close>), writing a present key keeps its place, writing a new key
  appends it. \<open>x || 0\<close> is \<open>0\<close> when \<open>x\<close> is \<open>undefined\<close> or \<open>0\<close>.
\<close>

fun objSet :: "('k \<times> 'v) list \<Rightarrow> 'k \<Rightarrow> 'v \<Rightarrow> ('k \<times> 'v) list" where
  "objSet [] k v = [(k, v)]"
| "objSet ((k', v') # rest) k v =
     (if k' = k then (k, v) # rest else (k', v') # objSet rest k v)"

definition orZero :: "nat option \<Rightarrow> nat" where
  "orZero x = (case x of None \<Rightarrow> 0 | Some n \<Rightarrow> n)"

fun countCategories :: "(EntityCategory \<times> nat) list \<Rightarrow> AnnotationEntity list
    \<Rightarrow> (EntityCategory \<times> nat) list" where
  "countCategories cc [] = cc"
| "countCategories cc (e # rest) =
     countCategories
       (objSet cc (ent_category e) (orZero (map_of cc (ent_category e)) + 1)) rest"

definition generateMutationBatch :: "(jsstring \<Rightarrow> jsstring) \<Rightarrow> (nat \<Rightarrow> jsstring)
    \<Rightarrow> AnnotationDocument \<Rightarrow> MutationBatch" where
  "generateMutationBatch unicodeLower clock annotation =
     (let nameNodes' = generateNameMutations (entities annotation);
          entityNodes' = generateEntityMutations unicodeLower clock (entities annotation);
          categoryCounts' = countCategories [] (entities annotation)
      in \<lparr>documentId = doc_id (document annotation),
          documentPath = doc_path (document annotation),
          nameNodes = nameNodes',
          entityNodes = entityNodes',
          relationships = [],
          summary =
            \<lparr>totalNameNodes = length nameNodes',
             totalEntityNodes = length entityNodes',
             totalRelationships = 0,
             categoryCounts = categoryCounts'\<rparr>\<rparr>)"

section \<open>Reference definitions\<close>

subsection \<open>GraphQL string literals\<close>

text \<open>
  What the escaping rule does to one code unit, as the specification words it: the five
  characters backslash, double quote, newline, carriage return and tab get a backslash
  escape, every other code unit is copied.
\<close>

definition escapeChar :: "nat \<Rightarrow> jsstring" where
  "escapeChar c =
     (if c = 0x5C then [0x5C, 0x5C]
      else if c = 0x22 then [0x5C, 0x22]
      else if c = 0x0A then [0x5C, 0x6E]
      else if c = 0x0D then [0x5C, 0x72]
      else if c = 0x09 then [0x5C, 0x74]
      else [c])"

text \<open>
  A source character of the wire format (GraphQL, October 2021, SourceCharacter): tab,
  newline, carriage return, and U+0020 to U+FFFF. The other control characters may not
  occur raw in a document.
\<close>

definition isSourceCharacter :: "nat \<Rightarrow> bool" where
  "isSourceCharacter c = (c = 0x09 \<or> c = 0x0A \<or> c = 0x0D \<or> (0x20 \<le> c \<and> c \<le> 0xFFFF))"

text \<open>
  Reading a string value of the wire format, after the opening quote, up to and including
  the closing quote (GraphQL, October 2021, StringValue): a StringCharacter is a
  source character other than the double quote, the backslash and a line terminator, or
  a backslash, \<open>u\<close> and four hexadecimal digits, or a backslash and one of the
  characters double quote, backslash, \<open>/ b f n r t\<close>. The result is the value read
  and the rest of the input; \<open>None\<close> is a lexical error (an unterminated string, a
  code unit that is no source character, a bad escape).
\<close>

definition hexDigit :: "nat \<Rightarrow> nat option" where
  "hexDigit c =
     (if 0x30 \<le> c \<and> c \<le> 0x39 then Some (c - 0x30)
      else if 0x41 \<le> c \<and> c \<le> 0x46 then Some (c - 0x41 + 10)
      else if 0x61 \<le> c \<and> c \<le> 0x66 then Some (c - 0x61 + 10)
      else None)"

definition escapedCharacter :: "nat \<Rightarrow> nat option" where
  "escapedCharacter c =
     (if c = 0x22 then Some 0x22
      else if c = 0x5C then Some 0x5C
      else if c = 0x2F then Some 0x2F
      else if c = 0x62 then Some 0x08
      else if c = 0x66 then Some 0x0C
      else if c = 0x6E then Some 0x0A
      else if c = 0x72 then Some 0x0D
      else if c = 0x74 then Some 0x09
      else None)"

definition consValue :: "nat \<Rightarrow> (jsstring \<times> jsstring) option \<Rightarrow> (jsstring \<times> jsstring) option" where
  "consValue c r = (case r of None \<Rightarrow> None | Some (v, rest) \<Rightarrow> Some (c # v, rest))"

fun readStringValue :: "jsstring \<Rightarrow> (jsstring \<times> jsstring) option" where
  "readStringValue [] = None"
| "readStringValue (c # cs) =
     (if c = 0x22 then Some ([], cs)
      else if c = 0x0A \<or> c = 0x0D then None
      else if \<not> isSourceCharacter c then None
      else if c = 0x5C then
        (case cs of
           [] \<Rightarrow> None
         | d # ds \<Rightarrow>
             if d = 0x75 then
               (case ds of
                  h1 # h2 # h3 # h4 # rest \<Rightarrow>
                    (case (hexDigit h1, hexDigit h2, hexDigit h3, hexDigit h4) of
                       (Some a, Some b, Some e, Some f) \<Rightarrow>
                         consValue (4096 * a + 256 * b + 16 * e + f) (readStringValue rest)
                     | _ \<Rightarrow> None)
                | _ \<Rightarrow> None)
             else
               (case escapedCharacter d of
                  None \<Rightarrow> None
                | Some x \<Rightarrow> consValue x (readStringValue ds)))
      else consValue c (readStringValue cs))"

subsection \<open>De-duplication and counting, as the specification words them\<close>

text \<open>
  The first occurrence of every key, in the order of the input.
\<close>

fun firstOccurrences :: "('a \<Rightarrow> 'k) \<Rightarrow> 'a list \<Rightarrow> 'a list" where
  "firstOccurrences f [] = []"
| "firstOccurrences f (x # xs) = x # firstOccurrences f (filter (\<lambda>y. f y \<noteq> f x) xs)"

definition trimmedText :: "AnnotationEntity \<Rightarrow> jsstring" where
  "trimmedText entity = trim (ent_text entity)"

definition categoryCount :: "EntityCategory \<Rightarrow> AnnotationEntity list \<Rightarrow> nat" where
  "categoryCount c ents = length (filter (\<lambda>e. ent_category e = c) ents)"

text \<open>
  The number of relationships of an input document, as the command-line front end
  prints it (\<open>annotation.relationships?.length || 0\<close>).
\<close>

definition inputRelationshipCount :: "AnnotationDocument \<Rightarrow> nat" where
  "inputRelationshipCount annotation =
     (case ann_relationships annotation of None \<Rightarrow> 0 | Some rs \<Rightarrow> length rs)"

subsection \<open>Identifier normalisation and mutation shapes\<close>

text \<open>
  Collapsing whitespace runs, as the specification words it: of a run of whitespace only
  its last code unit is kept, and that one becomes an underscore.
\<close>

fun collapseWhitespace :: "jsstring \<Rightarrow> jsstring" where
  "collapseWhitespace [] = []"
| "collapseWhitespace [c] = (if isWhiteSpace c then [0x5F] else [c])"
| "collapseWhitespace (c # d # cs) =
     (if isWhiteSpace c then
        (if isWhiteSpace d then collapseWhitespace (d # cs) else 0x5F # collapseWhitespace (d # cs))
      else c # collapseWhitespace (d # cs))"

text \<open>
  The fixed parts of the mutation text of a benefit entity: up to the opening quote of
  the name, between the name and the timestamp, and after the timestamp.
\<close>

definition benefitHead :: jsstring where
  "benefitHead =
     str ''mutation {'' @ [0x0A]
     @ str ''  add_Indian_Union_Government_Service_Benefit_(input: [{'' @ [0x0A]
     @ str ''    names: [{ name: '' @ dq"

definition benefitMiddle :: jsstring where
  "benefitMiddle = dq @ str '' }]'' @ [0x0A] @ str ''    node_created_on: '' @ dq"

definition benefitTail :: jsstring where
  "benefitTail =
     dq @ [0x0A]
     @ str ''  }]) {'' @ [0x0A]
     @ str ''    _Indian_Union_Government_Service_Benefit_ {'' @ [0x0A]
     @ str ''      id'' @ [0x0A]
     @ str ''    }'' @ [0x0A]
     @ str ''  }'' @ [0x0A]
     @ str ''}''"

text \<open>
  The categories whose template embeds the clock reading (\<open>node_created_on\<close>): all but
  \<open>value\<close> and \<open>document\<close>.
\<close>

definition usesTimestamp :: "EntityCategory \<Rightarrow> bool" where
  "usesTimestamp c = (c \<noteq> Value \<and> c \<noteq> Document)"

subsection \<open>Example inputs\<close>

definition exampleEntity :: "jsstring \<Rightarrow> jsstring \<Rightarrow> EntityCategory \<Rightarrow> AnnotationEntity" where
  "exampleEntity i t c =
     \<lparr>ent_id = i, ent_text = t, ent_start = 0, ent_end = int (length t), ent_category = c\<rparr>"

definition exampleDocument :: "AnnotationEntity list \<Rightarrow> AnnotationRelationship list option
    \<Rightarrow> AnnotationDocument" where
  "exampleDocument ents rels =
     \<lparr>document = \<lparr>doc_id = str ''s-64'', doc_path = str ''18/iv/s-64'',
                   doc_subject = str ''Ayushman Bharat Cards''\<rparr>,
      entities = ents, ann_relationships = rels, saved_at = None\<rparr>"

definition exampleRelationship :: AnnotationRelationship where
  "exampleRelationship =
     \<lparr>rel_id = str ''r1'', source_entity_id = str ''e1'', target_entity_id = str ''e2'',
      rel_type = str ''administers'', rel_label = str ''NHA administers AB-PMJAY''\<rparr>"

definition scenarioA :: "AnnotationEntity list" where
  "scenarioA =
     [exampleEntity (str ''e1'') (str ''National Health Authority (NHA)'') Organization,
      exampleEntity (str ''e2'') (str ''National Health Authority (NHA)'') Organization]"

definition clockA :: "nat \<Rightarrow> jsstring" where
  "clockA i = str ''2024-01-01T00:00:00.000Z''"

definition clockB :: "nat \<Rightarrow> jsstring" where
  "clockB i = str ''2024-01-01T00:00:00.001Z''"

definition dedupExample :: "AnnotationEntity list" where
  "dedupExample =
     [exampleEntity (str ''e1'') (str '' NHA'') Organization,
      exampleEntity (str ''e2'') (str ''nha'') Organization,
      exampleEntity (str ''e3'') (str ''NHA  '') Program,
      exampleEntity (str ''e4'') (str ''N HA'') Organization,
      exampleEntity (str ''e5'') (str ''nha'') Organization]"

definition benefitExample :: "AnnotationEntity list" where
  "benefitExample = [exampleEntity (str ''e1'') (str ''Free treatment'') Benefit]"

definition blankExample :: AnnotationEntity where
  "blankExample = exampleEntity (str ''e1'') [0x20, 0x09, 0x20] Organization"

definition punctuationExample :: AnnotationEntity where
  "punctuationExample = exampleEntity (str ''e2'') (str ''(!)'') Region"

definition timelessExample :: "AnnotationEntity list" where
  "timelessExample =
     [exampleEntity (str ''e1'') (str ''Rs 500 crore'') Value,
      exampleEntity (str ''e2'') (str ''Annual Report 2023'') Document]"

section \<open>Auxiliary facts\<close>

lemma replaceEach_Nil: "replaceEach C r [] = []"
  by (simp add: replaceEach_def)

lemma replaceEach_Cons: "replaceEach C r (c # cs) = (if C c then r else [c]) @ replaceEach C r cs"
  by (simp add: replaceEach_def)

lemma replaceEach_append: "replaceEach C r (xs @ ys) = replaceEach C r xs @ replaceEach C r ys"
  by (simp add: replaceEach_def)

lemma escapeGraphQL_Nil: "escapeGraphQL [] = []"
  by (simp add: escapeGraphQL_def replaceEach_Nil)

lemma escapeGraphQL_Cons: "escapeGraphQL (c # cs) = escapeChar c @ escapeGraphQL cs"
  by (simp add: escapeGraphQL_def escapeChar_def replaceEach_Cons replaceEach_append replaceEach_Nil)


lemma readStringValue_escape:
  "readStringValue (escapeGraphQL s @ 0x22 # rest)
     = (if list_all isSourceCharacter s then Some (s, rest) else None)"
proof (induction s)
  case Nil
  show ?case by (simp add: escapeGraphQL_Nil)
next
  case (Cons c cs)
  show ?case
  proof (cases "isSourceCharacter c")
    case True
    then show ?thesis
      using Cons.IH
      by (auto simp: escapeGraphQL_Cons escapeChar_def escapedCharacter_def consValue_def
          isSourceCharacter_def)
  next
    case False
    then have "escapeChar c = [c]" "c \<noteq> 0x22" "c \<noteq> 0x0A" "c \<noteq> 0x0D"
      by (auto simp: escapeChar_def isSourceCharacter_def)
    then show ?thesis
      using False by (simp add: escapeGraphQL_Cons)
  qed
qed

lemma uniqueNames_acc:
  "uniqueNames m ents =
     m @ map (\<lambda>e. (trimmedText e, e))
           (firstOccurrences trimmedText (filter (\<lambda>e. trimmedText e \<notin> set (map fst m)) ents))"
proof (induction ents arbitrary: m)
  case Nil
  show ?case by simp
next
  case (Cons e rest)
  show ?case
  proof (cases "trimmedText e \<in> set (map fst m)")
    case True
    then show ?thesis
      using Cons.IH [of m] by (simp add: map_has_def trimmedText_def Let_def)
  next
    case False
    show ?thesis
    proof -
      have k: "trim (ent_text e) = trimmedText e" by (simp add: trimmedText_def)
      have "uniqueNames m (e # rest) = uniqueNames (m @ [(trimmedText e, e)]) rest"
        using False by (simp add: map_has_def k Let_def)
      also have "\<dots> = (m @ [(trimmedText e, e)]) @ map (\<lambda>e. (trimmedText e, e))
           (firstOccurrences trimmedText (filter (\<lambda>x. trimmedText x \<notin> set (map fst (m @ [(trimmedText e, e)]))) rest))"
        by (rule Cons.IH)
      also have "\<dots> = m @ map (\<lambda>e. (trimmedText e, e))
           (firstOccurrences trimmedText (filter (\<lambda>e. trimmedText e \<notin> set (map fst m)) (e # rest)))"
        using False by (simp add: conj_commute)
      finally show ?thesis .
    qed
  qed
qed

lemma uniqueNames_firstOccurrences:
  "map snd (uniqueNames [] ents) = firstOccurrences trimmedText ents"
  by (simp add: uniqueNames_acc [of "[]"] comp_def)

lemma firstOccurrences_set: "set (firstOccurrences f xs) \<subseteq> set xs"
  by (induction f xs rule: firstOccurrences.induct) auto

lemma firstOccurrences_image: "f ` set (firstOccurrences f xs) = f ` set xs"
  by (induction f xs rule: firstOccurrences.induct) auto

lemma firstOccurrences_distinct: "distinct (map f (firstOccurrences f xs))"
proof (induction f xs rule: firstOccurrences.induct)
  case (1 f)
  show ?case by simp
next
  case (2 f x xs)
  have "f x \<notin> f ` set (firstOccurrences f (filter (\<lambda>y. f y \<noteq> f x) xs))"
    by (auto simp: firstOccurrences_image)
  with 2 show ?case by simp
qed

lemma firstOccurrences_length: "length (firstOccurrences f xs) = card (f ` set xs)"
proof -
  have "card (f ` set xs) = card (set (map f (firstOccurrences f xs)))"
    by (simp add: firstOccurrences_image)
  also have "\<dots> = length (map f (firstOccurrences f xs))"
    by (rule distinct_card) (rule firstOccurrences_distinct)
  finally show ?thesis by simp
qed

lemma firstOccurrences_subseq: "subseq (firstOccurrences f xs) xs"
proof (induction f xs rule: firstOccurrences.induct)
  case (1 f)
  show ?case by simp
next
  case (2 f x xs)
  have "subseq (firstOccurrences f (filter (\<lambda>y. f y \<noteq> f x) xs)) (filter (\<lambda>y. f y \<noteq> f x) xs)"
    by (rule 2)
  also have "subseq (filter (\<lambda>y. f y \<noteq> f x) xs) xs"
    by simp
  finally show ?case by simp
qed

lemma find_filter_implied:
  "(\<And>y. P y \<Longrightarrow> Q y) \<Longrightarrow> find P (filter Q xs) = find P xs"
  by (induction xs) auto

lemma firstOccurrences_find:
  "e \<in> set (firstOccurrences f xs) \<Longrightarrow> find (\<lambda>y. f y = f e) xs = Some e"
proof (induction f xs rule: firstOccurrences.induct)
  case (1 f)
  then show ?case by simp
next
  case (2 f x xs)
  show ?case
  proof (cases "e = x")
    case True
    then show ?thesis by simp
  next
    case False
    with "2.prems" have m: "e \<in> set (firstOccurrences f (filter (\<lambda>y. f y \<noteq> f x) xs))"
      by simp
    then have "e \<in> set (filter (\<lambda>y. f y \<noteq> f x) xs)"
      by (rule subsetD [OF firstOccurrences_set])
    then have ne: "f x \<noteq> f e"
      by auto
    have a: "find (\<lambda>y. f y = f e) (filter (\<lambda>y. f y \<noteq> f x) xs) = Some e"
      by (rule "2.IH") (rule m)
    have b: "find (\<lambda>y. f y = f e) (filter (\<lambda>y. f y \<noteq> f x) xs) = find (\<lambda>y. f y = f e) xs"
    proof (rule find_filter_implied)
      fix y assume "f y = f e"
      with ne show "f y \<noteq> f x" by simp
    qed
    have "find (\<lambda>y. f y = f e) (x # xs) = find (\<lambda>y. f y = f e) xs"
      using ne by simp
    also have "\<dots> = Some e"
      by (rule trans [OF b [symmetric] a])
    finally show ?thesis .
  qed
qed

lemma objSet_map_of: "map_of (objSet m k v) = (map_of m)(k \<mapsto> v)"
  by (induction m k v rule: objSet.induct) auto

lemma objSet_keys: "set (map fst (objSet m k v)) = insert k (set (map fst m))"
  by (induction m k v rule: objSet.induct) auto

lemma objSet_distinct: "distinct (map fst m) \<Longrightarrow> distinct (map fst (objSet m k v))"
proof (induction m k v rule: objSet.induct)
  case (1 k v)
  show ?case by simp
next
  case (2 k' v' rest k v)
  show ?case
  proof (cases "k' = k")
    case True
    with "2.prems" show ?thesis by simp
  next
    case False
    have "k' \<notin> set (map fst (objSet rest k v))"
      using False "2.prems" unfolding objSet_keys by simp
    with False 2 show ?thesis by simp
  qed
qed

lemma map_of_absent_orZero: "k \<notin> set (map fst m) \<Longrightarrow> orZero (map_of m k) = 0"
  by (induction m) (auto simp: orZero_def)

lemma objSet_sum:
  "distinct (map fst m) \<Longrightarrow>
   sum_list (map snd (objSet m k v)) + orZero (map_of m k) = sum_list (map snd m) + v"
proof (induction m k v rule: objSet.induct)
  case (1 k v)
  show ?case by (simp add: orZero_def)
next
  case (2 k' v' rest k v)
  show ?case
  proof (cases "k' = k")
    case True
    with "2.prems" have "k \<notin> set (map fst rest)" by simp
    then show ?thesis using True by (simp add: orZero_def)
  next
    case False
    with 2 show ?thesis by simp
  qed
qed

lemma countCategories_distinct:
  "distinct (map fst cc) \<Longrightarrow> distinct (map fst (countCategories cc ents))"
  by (induction ents arbitrary: cc) (simp_all add: objSet_distinct)

lemma countCategories_sum:
  "distinct (map fst cc) \<Longrightarrow>
   sum_list (map snd (countCategories cc ents)) = sum_list (map snd cc) + length ents"
proof (induction ents arbitrary: cc)
  case Nil
  show ?case by simp
next
  case (Cons e rest)
  let ?cc = "objSet cc (ent_category e) (orZero (map_of cc (ent_category e)) + 1)"
  have "sum_list (map snd (countCategories cc (e # rest))) = sum_list (map snd ?cc) + length rest"
    using Cons.IH [of ?cc] Cons.prems by (simp add: objSet_distinct)
  moreover have "sum_list (map snd ?cc) = sum_list (map snd cc) + 1"
    using objSet_sum [OF Cons.prems, of "ent_category e" "orZero (map_of cc (ent_category e)) + 1"]
    by simp
  ultimately show ?case by simp
qed

lemma countCategories_lookup:
  "map_of (countCategories cc ents) c =
     (if categoryCount c ents = 0 then map_of cc c
      else Some (orZero (map_of cc c) + categoryCount c ents))"
proof (induction ents arbitrary: cc)
  case Nil
  show ?case by (simp add: categoryCount_def)
next
  case (Cons e rest)
  let ?cc = "objSet cc (ent_category e) (orZero (map_of cc (ent_category e)) + 1)"
  have step: "map_of (countCategories cc (e # rest)) c =
     (if categoryCount c rest = 0 then map_of ?cc c
      else Some (orZero (map_of ?cc c) + categoryCount c rest))"
    using Cons.IH [of ?cc] by simp
  show ?case
  proof (cases "ent_category e = c")
    case True
    then show ?thesis
      unfolding step by (simp add: objSet_map_of categoryCount_def orZero_def)
  next
    case False
    then show ?thesis
      unfolding step by (simp add: objSet_map_of categoryCount_def)
  qed
qed

lemma escapeChar_append_inj:
  "escapeChar c @ xs = escapeChar d @ ys \<Longrightarrow> c = d \<and> xs = ys"
  by (auto simp: escapeChar_def split: if_splits)

lemma escapeGraphQL_not_Nil: "escapeGraphQL (c # cs) \<noteq> []"
  by (simp add: escapeGraphQL_Cons escapeChar_def)

lemma escapeGraphQL_inj: "escapeGraphQL s = escapeGraphQL t \<Longrightarrow> s = t"
proof (induction s arbitrary: t)
  case Nil
  show ?case
  proof (cases t)
    case (Cons d ds)
    with Nil have "escapeGraphQL (d # ds) = []"
      by (simp add: escapeGraphQL_Nil)
    then show ?thesis
      by (simp add: escapeGraphQL_not_Nil)
  qed simp
next
  case (Cons c cs)
  show ?case
  proof (cases t)
    case Nil
    with Cons.prems show ?thesis
      using escapeGraphQL_not_Nil [of c cs] by (simp add: escapeGraphQL_Nil)
  next
    case (Cons d ds)
    with Cons.prems have "escapeChar c @ escapeGraphQL cs = escapeChar d @ escapeGraphQL ds"
      by (simp add: escapeGraphQL_Cons)
    then have "c = d" "escapeGraphQL cs = escapeGraphQL ds"
      using escapeChar_append_inj by blast+
    with Cons.IH [of ds] Cons show ?thesis
      by simp
  qed
qed

lemma nameMutation_text_inj:
  "mutation (nameMutation e) = mutation (nameMutation e') \<Longrightarrow> trimmedText e = trimmedText e'"
  by (simp add: nameMutation_def joinLines_def trimmedText_def escapeGraphQL_inj)

lemma nameMutations_distinct:
  "distinct (map trimmedText xs) \<Longrightarrow> distinct (map mutation (map nameMutation xs))"
proof (induction xs)
  case Nil
  show ?case by simp
next
  case (Cons x xs)
  have "mutation (nameMutation x) \<notin> set (map mutation (map nameMutation xs))"
  proof
    assume "mutation (nameMutation x) \<in> set (map mutation (map nameMutation xs))"
    then obtain y where y: "y \<in> set xs" "mutation (nameMutation x) = mutation (nameMutation y)"
      by auto
    then have "trimmedText x = trimmedText y"
      by (intro nameMutation_text_inj)
    with y(1) Cons.prems show False
      by auto
  qed
  with Cons show ?case by simp
qed

lemma dedupExample_first:
  "firstOccurrences trimmedText dedupExample = [dedupExample ! 0, dedupExample ! 1, dedupExample ! 3]"
  by (simp add: dedupExample_def exampleEntity_def trimmedText_def trim_def isWhiteSpace_def str_def)

lemma replaceEach_filter: "replaceEach (\<lambda>c. \<not> P c) [] s = filter P s"
  by (induction s) (simp_all add: replaceEach_def)

lemma replaceRuns_collapse:
  "replaceRuns isWhiteSpace [0x5F] s = collapseWhitespace s"
proof (induction s rule: collapseWhitespace.induct)
  case 1
  show ?case by simp
next
  case (2 c)
  show ?case by simp
next
  case (3 c d cs)
  show ?case
  proof (cases "isWhiteSpace c")
    case False
    with 3 show ?thesis by simp
  next
    case c: True
    show ?thesis
    proof (cases "isWhiteSpace d")
      case d: True
      have "replaceRuns isWhiteSpace [0x5F] (d # cs) = collapseWhitespace (d # cs)"
        using 3 c d by simp
      then show ?thesis
        using c d by simp
    next
      case d: False
      have "replaceRuns isWhiteSpace [0x5F] (d # cs) = collapseWhitespace (d # cs)"
        using 3 c d by simp
      then show ?thesis
        using c d by simp
    qed
  qed
qed

lemma normalizeText_spec:
  "normalizeText unicodeLower t
     = filter isIdChar (collapseWhitespace (trim (toLowerCase unicodeLower t)))"
  by (simp add: normalizeText_def replaceEach_filter replaceRuns_collapse str_def)

lemma scenarioA_normalized:
  "normalizeText unicodeLower (str ''National Health Authority (NHA)'')
     = str ''national_health_authority_nha''"
  by (simp add: normalizeText_def toLowerCase_def asciiLower_def trim_def isWhiteSpace_def
      isIdChar_def replaceEach_def str_def)

lemma dropWhile_all: "list_all P s \<Longrightarrow> dropWhile P s = []"
  by (induction s) simp_all

lemma trim_all_whiteSpace: "list_all isWhiteSpace s \<Longrightarrow> trim s = []"
  by (simp only: trim_def dropWhile_all rev.simps dropWhile.simps)

lemma trim_no_whiteSpace: "list_all (\<lambda>c. \<not> isWhiteSpace c) s \<Longrightarrow> trim s = s"
proof (cases s rule: rev_cases)
  case Nil
  then show ?thesis by (simp add: trim_def)
next
  case (snoc ys y)
  assume a: "list_all (\<lambda>c. \<not> isWhiteSpace c) s"
  then have "dropWhile isWhiteSpace s = s"
    by (cases s) simp_all
  moreover have "dropWhile isWhiteSpace (rev s) = rev s"
    using a snoc by simp
  ultimately show ?thesis
    by (simp add: trim_def)
qed

lemma replaceRuns_no_match: "list_all (\<lambda>c. \<not> C c) s \<Longrightarrow> replaceRuns C r s = s"
  by (induction s) simp_all

lemma filter_none: "list_all (\<lambda>c. \<not> P c) s \<Longrightarrow> filter P s = []"
  by (induction s) simp_all

lemma normalizeText_whiteSpace:
  "list_all isWhiteSpace (toLowerCase unicodeLower t) \<Longrightarrow> normalizeText unicodeLower t = []"
  by (simp add: normalizeText_def trim_all_whiteSpace replaceEach_def)

lemma list_all_weaken: "list_all (\<lambda>c. P c \<and> Q c) s \<Longrightarrow> list_all P s \<and> list_all Q s"
  by (induction s) simp_all

lemma normalizeText_stripped:
  assumes "list_all (\<lambda>c. \<not> isWhiteSpace c \<and> \<not> isIdChar c) (toLowerCase unicodeLower t)"
  shows "normalizeText unicodeLower t = []"
proof -
  from assms have w: "list_all (\<lambda>c. \<not> isWhiteSpace c) (toLowerCase unicodeLower t)"
    and i: "list_all (\<lambda>c. \<not> isIdChar c) (toLowerCase unicodeLower t)"
    using list_all_weaken [of "\<lambda>c. \<not> isWhiteSpace c" "\<lambda>c. \<not> isIdChar c"] by blast+
  show ?thesis
    using i by (simp add: normalizeText_def trim_no_whiteSpace [OF w] replaceRuns_no_match [OF w]
        replaceEach_filter filter_none)
qed

lemma benefit_mutation_shape:
  "ent_category entity = Benefit \<Longrightarrow>
   mutation (entityMutation unicodeLower now entity)
     = benefitHead @ escapeGraphQL (trim (ent_text entity)) @ benefitMiddle @ now @ benefitTail"
  by (simp add: entityMutation_def Let_def joinLines_def benefitHead_def benefitMiddle_def
      benefitTail_def str_def)

lemma benefit_fixed_parts:
  "suffix (str ''names: [{ name: '' @ dq) benefitHead"
  "prefix (dq @ str '' }]'') benefitMiddle"
  "suffix (str ''node_created_on: '' @ dq) benefitMiddle"
  "\<not> sublist (str ''name_id'') benefitHead"
  "\<not> sublist (str ''name_id'') benefitMiddle"
  "\<not> sublist (str ''name_id'') benefitTail"
  "\<not> sublist (str ''upsert'') benefitHead"
  "\<not> sublist (str ''upsert'') benefitMiddle"
  "\<not> sublist (str ''upsert'') benefitTail"
  by code_simp+

lemma entityMutation_description:
  "description (entityMutation unicodeLower now entity)
     = description (entityMutation unicodeLower now' entity)"
  by (cases "ent_category entity") (simp_all add: entityMutation_def Let_def)

lemma entityMutation_timeless:
  "\<not> usesTimestamp (ent_category entity) \<Longrightarrow>
   entityMutation unicodeLower now entity = entityMutation unicodeLower now' entity"
  by (cases "ent_category entity") (simp_all add: entityMutation_def Let_def usesTimestamp_def)

lemma generateEntityMutations_descriptions:
  "map description (generateEntityMutations unicodeLower clock ents)
     = map description (generateEntityMutations unicodeLower clock' ents)"
  unfolding generateEntityMutations_def map_map
  by (rule map_cong [OF refl]) (auto simp: entityMutation_description [of _ "clock _" _ "clock' _"])

lemma generateEntityMutations_clock:
  assumes "\<forall>i < length ents. usesTimestamp (ent_category (ents ! i)) \<longrightarrow> clock i = clock' i"
  shows "generateEntityMutations unicodeLower clock ents
           = generateEntityMutations unicodeLower clock' ents"
  unfolding generateEntityMutations_def
proof (rule map_cong [OF refl])
  fix x
  assume "x \<in> set (zip [0..<length ents] ents)"
  then obtain n where n: "[0..<length ents] ! n = fst x" "ents ! n = snd x" "n < length ents"
    by (auto simp: in_set_zip)
  then have x: "x = (n, ents ! n)"
    by (cases x) simp
  show "(case x of (i, entity) \<Rightarrow> entityMutation unicodeLower (clock i) entity)
      = (case x of (i, entity) \<Rightarrow> entityMutation unicodeLower (clock' i) entity)"
  proof (cases "usesTimestamp (ent_category (ents ! n))")
    case True
    with assms n(3) have "clock n = clock' n" by blast
    then show ?thesis by (simp add: x)
  next
    case False
    then show ?thesis
      unfolding x by (simp add: entityMutation_timeless [of "ents ! n" unicodeLower "clock n" "clock' n"])
  qed
qed

section \<open>The claims\<close>

text \<open>
  Claim C1, as amended. Whatever relationships the input document holds, the batch has
  \<open>summary.totalRelationships = 0\<close> and an empty sequence of relationship mutations:
  the relationships of the input are neither translated nor counted.
\<close>

theorem C1_relationships_never_translated:
  "totalRelationships (summary (generateMutationBatch unicodeLower clock annotation)) = 0
   \<and> relationships (generateMutationBatch unicodeLower clock annotation) = []"
  by (simp add: generateMutationBatch_def Let_def)

theorem C1_relationships_never_translated_witness:
  "totalRelationships (summary (generateMutationBatch id clockA
      (exampleDocument scenarioA (Some [exampleRelationship])))) = 0
   \<and> relationships (generateMutationBatch id clockA
      (exampleDocument scenarioA (Some [exampleRelationship]))) = []"
  by (rule C1_relationships_never_translated)

theorem C1_counterexample:
  "totalRelationships (summary (generateMutationBatch id clockA
      (exampleDocument scenarioA (Some [exampleRelationship]))))
   \<noteq> inputRelationshipCount (exampleDocument scenarioA (Some [exampleRelationship]))"
  by (simp add: generateMutationBatch_def Let_def inputRelationshipCount_def exampleDocument_def)

text \<open>
  Claim C2, as amended. The batch is a function of the document, the mapping table and
  the clock readings made for the entities. Two calls on the same document with any two
  clocks give the same document id and path, the same entry-node mutations, the same
  relationship mutations, the same summary and the same typed-node descriptions; and
  they give the same batch altogether when the two clocks agree at every entity whose
  category embeds the reading (every category but \<open>value\<close> and \<open>document\<close>).
\<close>

theorem C2_batch_determined_by_document_and_clock:
  "documentId (generateMutationBatch unicodeLower clock annotation)
     = documentId (generateMutationBatch unicodeLower clock' annotation)
   \<and> documentPath (generateMutationBatch unicodeLower clock annotation)
     = documentPath (generateMutationBatch unicodeLower clock' annotation)
   \<and> nameNodes (generateMutationBatch unicodeLower clock annotation)
     = nameNodes (generateMutationBatch unicodeLower clock' annotation)
   \<and> relationships (generateMutationBatch unicodeLower clock annotation)
     = relationships (generateMutationBatch unicodeLower clock' annotation)
   \<and> summary (generateMutationBatch unicodeLower clock annotation)
     = summary (generateMutationBatch unicodeLower clock' annotation)
   \<and> map description (entityNodes (generateMutationBatch unicodeLower clock annotation))
     = map description (entityNodes (generateMutationBatch unicodeLower clock' annotation))
   \<and> ((\<forall>i < length (entities annotation).
          usesTimestamp (ent_category (entities annotation ! i)) \<longrightarrow> clock i = clock' i)
        \<longrightarrow> generateMutationBatch unicodeLower clock annotation
            = generateMutationBatch unicodeLower clock' annotation)"
proof -
  have l: "length (generateEntityMutations unicodeLower clock (entities annotation))
         = length (generateEntityMutations unicodeLower clock' (entities annotation))"
    by (simp add: generateEntityMutations_def)
  have d: "map description (generateEntityMutations unicodeLower clock (entities annotation))
     = map description (generateEntityMutations unicodeLower clock' (entities annotation))"
    by (rule generateEntityMutations_descriptions)
  have e: "(\<forall>i < length (entities annotation).
          usesTimestamp (ent_category (entities annotation ! i)) \<longrightarrow> clock i = clock' i)
        \<longrightarrow> generateEntityMutations unicodeLower clock (entities annotation)
            = generateEntityMutations unicodeLower clock' (entities annotation)"
    using generateEntityMutations_clock [of "entities annotation" clock clock' unicodeLower]
    by blast
  show ?thesis
    using l d e by (simp add: generateMutationBatch_def Let_def)
qed

theorem C2_batch_determined_by_document_and_clock_witness:
  "generateMutationBatch id clockA (exampleDocument timelessExample None)
     = generateMutationBatch id clockB (exampleDocument timelessExample None)"
proof -
  have "\<forall>i < length (entities (exampleDocument timelessExample None)).
          usesTimestamp (ent_category (entities (exampleDocument timelessExample None) ! i))
          \<longrightarrow> clockA i = clockB i"
    by (simp add: exampleDocument_def timelessExample_def exampleEntity_def usesTimestamp_def
        less_Suc_eq nth_Cons')
  then show ?thesis
    using C2_batch_determined_by_document_and_clock
      [of id clockA "exampleDocument timelessExample None" clockB]
    by blast
qed

theorem C2_counterexample:
  "generateMutationBatch id clockA (exampleDocument benefitExample None)
     \<noteq> generateMutationBatch id clockB (exampleDocument benefitExample None)"
proof
  assume "generateMutationBatch id clockA (exampleDocument benefitExample None)
     = generateMutationBatch id clockB (exampleDocument benefitExample None)"
  then have "entityNodes (generateMutationBatch id clockA (exampleDocument benefitExample None))
     = entityNodes (generateMutationBatch id clockB (exampleDocument benefitExample None))"
    by (rule arg_cong)
  then have "entityMutation id (clockA 0) (benefitExample ! 0)
     = entityMutation id (clockB 0) (benefitExample ! 0)"
    by (simp add: generateMutationBatch_def Let_def generateEntityMutations_def
        exampleDocument_def benefitExample_def)
  then have "mutation (entityMutation id (clockA 0) (benefitExample ! 0))
     = mutation (entityMutation id (clockB 0) (benefitExample ! 0))"
    by (rule arg_cong)
  moreover have "ent_category (benefitExample ! 0) = Benefit"
    by (simp add: benefitExample_def exampleEntity_def)
  ultimately have "clockA 0 = clockB 0"
    by (simp add: benefit_mutation_shape)
  then show False
    by (simp add: clockA_def clockB_def str_def)
qed

text \<open>
  Claim C3. The entry-node builder emits one mutation for every distinct trimmed text.
  The key is the trimmed text itself, compared code unit by code unit (no case folding,
  no normalisation of inner whitespace); the entity kept for a key is its first
  occurrence in the input; the output follows the order of those first occurrences; and
  the mutation texts emitted are pairwise different.
\<close>

theorem C3_entry_nodes_deduplicated:
  "generateNameMutations ents = map nameMutation (firstOccurrences trimmedText ents)
   \<and> length (generateNameMutations ents) = card (trimmedText ` set ents)
   \<and> distinct (map trimmedText (firstOccurrences trimmedText ents))
   \<and> trimmedText ` set (firstOccurrences trimmedText ents) = trimmedText ` set ents
   \<and> subseq (firstOccurrences trimmedText ents) ents
   \<and> (\<forall>e \<in> set (firstOccurrences trimmedText ents).
        find (\<lambda>x. trimmedText x = trimmedText e) ents = Some e)
   \<and> distinct (map mutation (generateNameMutations ents))"
proof -
  have g: "generateNameMutations ents = map nameMutation (firstOccurrences trimmedText ents)"
    by (simp add: generateNameMutations_def uniqueNames_firstOccurrences)
  have d: "distinct (map trimmedText (firstOccurrences trimmedText ents))"
    by (rule firstOccurrences_distinct)
  have "distinct (map mutation (generateNameMutations ents))"
    unfolding g using d by (rule nameMutations_distinct)
  moreover have "length (generateNameMutations ents) = card (trimmedText ` set ents)"
    unfolding g by (simp add: firstOccurrences_length)
  ultimately show ?thesis
    using g d firstOccurrences_image [of trimmedText ents]
      firstOccurrences_subseq [of trimmedText ents] firstOccurrences_find [of _ trimmedText ents]
    by blast
qed

theorem C3_entry_nodes_deduplicated_witness:
  "generateNameMutations dedupExample
     = map nameMutation [dedupExample ! 0, dedupExample ! 1, dedupExample ! 3]
   \<and> length (generateNameMutations dedupExample) = 3
   \<and> card (trimmedText ` set dedupExample) = 3"
proof -
  note t = C3_entry_nodes_deduplicated [of dedupExample]
  have a: "generateNameMutations dedupExample
     = map nameMutation [dedupExample ! 0, dedupExample ! 1, dedupExample ! 3]"
    using conjunct1 [OF t] by (simp add: dedupExample_first)
  have "length (generateNameMutations dedupExample) = card (trimmedText ` set dedupExample)"
    by (rule conjunct1 [OF conjunct2 [OF t]])
  then have c: "card (trimmedText ` set dedupExample) = 3"
    unfolding a by simp
  show ?thesis
    using a c by simp
qed

text \<open>
  Claim C4. The typed-node builder emits one mutation for every entity, in input order:
  the result is as long as the entity list, and its \<open>i\<close>-th element is the mutation
  built from the \<open>i\<close>-th entity (with the clock reading made for it), whether or not
  texts repeat.
\<close>

theorem C4_one_typed_node_per_entity:
  "length (generateEntityMutations unicodeLower clock ents) = length ents
   \<and> (\<forall>i < length ents.
        generateEntityMutations unicodeLower clock ents ! i
          = entityMutation unicodeLower (clock i) (ents ! i))"
  by (simp add: generateEntityMutations_def)

theorem C4_one_typed_node_per_entity_witness:
  "length (generateEntityMutations id clockA scenarioA) = 2
   \<and> generateEntityMutations id clockA scenarioA ! 1
       = entityMutation id (clockA 1) (scenarioA ! 1)"
  using C4_one_typed_node_per_entity [of id clockA scenarioA]
  by (simp add: scenarioA_def)

text \<open>
  Claim C5. The identifier of an entity is the identifier prefix of its category, then
  \<open>::\<close>, then the text lowercased, trimmed, with every whitespace run collapsed to
  one underscore and every code unit outside \<open>[a-z0-9_-]\<close> removed. Entities with
  equal text and category get equal identifiers. The organization
  \<open>National Health Authority (NHA)\<close> gets \<open>org::national_health_authority_nha\<close>.
\<close>

theorem C5_identifier_derivation:
  "generateNameId unicodeLower entity
     = nameIdPrefix (CATEGORY_TYPE_MAP (ent_category entity)) @ str ''::''
       @ filter isIdChar (collapseWhitespace (trim (toLowerCase unicodeLower (ent_text entity))))
   \<and> (ent_text entity = ent_text entity' \<and> ent_category entity = ent_category entity'
        \<longrightarrow> generateNameId unicodeLower entity = generateNameId unicodeLower entity')
   \<and> (ent_text entity = str ''National Health Authority (NHA)''
        \<and> ent_category entity = Organization
        \<longrightarrow> generateNameId unicodeLower entity = str ''org::national_health_authority_nha'')"
proof -
  have a: "generateNameId unicodeLower entity
     = nameIdPrefix (CATEGORY_TYPE_MAP (ent_category entity)) @ str ''::''
       @ filter isIdChar (collapseWhitespace (trim (toLowerCase unicodeLower (ent_text entity))))"
    by (simp add: generateNameId_def Let_def normalizeText_spec)
  have b: "ent_text entity = ent_text entity' \<and> ent_category entity = ent_category entity'
        \<longrightarrow> generateNameId unicodeLower entity = generateNameId unicodeLower entity'"
    by (simp add: generateNameId_def)
  have c: "ent_text entity = str ''National Health Authority (NHA)''
        \<and> ent_category entity = Organization
        \<longrightarrow> generateNameId unicodeLower entity = str ''org::national_health_authority_nha''"
    by (simp add: generateNameId_def Let_def scenarioA_normalized) (simp add: str_def)
  from a b c show ?thesis by (intro conjI)
qed

theorem C5_identifier_derivation_witness:
  "generateNameId id (scenarioA ! 0) = str ''org::national_health_authority_nha''
   \<and> generateNameId id (scenarioA ! 0) = generateNameId id (scenarioA ! 1)"
proof -
  note t = C5_identifier_derivation [of id "scenarioA ! 0" "scenarioA ! 1"]
  have e: "ent_text (scenarioA ! 0) = str ''National Health Authority (NHA)''"
    "ent_category (scenarioA ! 0) = Organization"
    "ent_text (scenarioA ! 0) = ent_text (scenarioA ! 1)"
    "ent_category (scenarioA ! 0) = ent_category (scenarioA ! 1)"
    by (simp_all add: scenarioA_def exampleEntity_def)
  from t e show ?thesis
    by blast
qed




text \<open>
  Claim C7. In the summary of a batch every category has one entry at most; a category
  with \<open>n > 0\<close> entities has the count \<open>n\<close>, a category with no entity has no entry;
  and the counts add up to the number of entities.
\<close>

theorem C7_category_counts:
  "distinct (map fst (categoryCounts (summary (generateMutationBatch unicodeLower clock annotation))))
   \<and> map_of (categoryCounts (summary (generateMutationBatch unicodeLower clock annotation))) c
       = (if categoryCount c (entities annotation) = 0 then None
          else Some (categoryCount c (entities annotation)))
   \<and> sum_list (map snd (categoryCounts (summary (generateMutationBatch unicodeLower clock annotation))))
       = length (entities annotation)"
proof -
  have cc: "categoryCounts (summary (generateMutationBatch unicodeLower clock annotation))
            = countCategories [] (entities annotation)"
    by (simp add: generateMutationBatch_def Let_def)
  have "distinct (map fst (countCategories [] (entities annotation)))"
    by (rule countCategories_distinct) simp
  moreover have "map_of (countCategories [] (entities annotation)) c
       = (if categoryCount c (entities annotation) = 0 then None
          else Some (categoryCount c (entities annotation)))"
    by (simp add: countCategories_lookup orZero_def)
  moreover have "sum_list (map snd (countCategories [] (entities annotation)))
       = length (entities annotation)"
    by (simp add: countCategories_sum)
  ultimately show ?thesis
    unfolding cc by simp
qed

theorem C7_category_counts_witness:
  "categoryCounts (summary (generateMutationBatch id clockA (exampleDocument dedupExample None)))
     = [(Organization, 4), (Program, 1)]
   \<and> map_of (categoryCounts (summary (generateMutationBatch id clockA (exampleDocument dedupExample None))))
        Organization = Some 4
   \<and> map_of (categoryCounts (summary (generateMutationBatch id clockA (exampleDocument dedupExample None))))
        Value = None
   \<and> sum_list (map snd (categoryCounts (summary (generateMutationBatch id clockA
        (exampleDocument dedupExample None))))) = 5"
  using C7_category_counts [of id clockA "exampleDocument dedupExample None" Organization]
  by (simp add: generateMutationBatch_def Let_def exampleDocument_def dedupExample_def
      exampleEntity_def orZero_def categoryCount_def)

text \<open>
  Claim C8. The mutation of a benefit entity is the fixed head, the escaped trimmed text,
  the fixed middle, the clock reading and the fixed tail. The head ends in
  \<open>names: [{ name: "\<close>, so the text is a string literal inside a nested \<open>names\<close>
  object (when the trimmed text consists of source characters, the literal reads back
  as the trimmed text); the middle closes that object and opens
  \<open>node_created_on: "\<close>. None of the fixed parts contains \<open>name_id\<close> or \<open>upsert\<close>.
\<close>

theorem C8_benefit_mutation_shape:
  "(ent_category entity = Benefit \<longrightarrow>
      mutation (entityMutation unicodeLower now entity)
        = benefitHead @ escapeGraphQL (trim (ent_text entity)) @ benefitMiddle @ now @ benefitTail
      \<and> (list_all isSourceCharacter (trim (ent_text entity)) \<longrightarrow>
           readStringValue
             (escapeGraphQL (trim (ent_text entity)) @ benefitMiddle @ now @ benefitTail)
             = Some (trim (ent_text entity), tl benefitMiddle @ now @ benefitTail)))
   \<and> suffix (str ''names: [{ name: '' @ dq) benefitHead
   \<and> prefix (dq @ str '' }]'') benefitMiddle
   \<and> suffix (str ''node_created_on: '' @ dq) benefitMiddle
   \<and> \<not> sublist (str ''name_id'') benefitHead
   \<and> \<not> sublist (str ''name_id'') benefitMiddle
   \<and> \<not> sublist (str ''name_id'') benefitTail
   \<and> \<not> sublist (str ''upsert'') benefitHead
   \<and> \<not> sublist (str ''upsert'') benefitMiddle
   \<and> \<not> sublist (str ''upsert'') benefitTail"
proof -
  have "list_all isSourceCharacter (trim (ent_text entity)) \<longrightarrow>
          readStringValue
            (escapeGraphQL (trim (ent_text entity)) @ benefitMiddle @ now @ benefitTail)
            = Some (trim (ent_text entity), tl benefitMiddle @ now @ benefitTail)"
    using readStringValue_escape [of "trim (ent_text entity)" "tl benefitMiddle @ now @ benefitTail"]
    by (simp add: benefitMiddle_def dq_def)
  then show ?thesis
    using benefit_mutation_shape [of entity unicodeLower now] benefit_fixed_parts
    by simp
qed

theorem C8_benefit_mutation_shape_witness:
  "mutation (entityMutation id (clockA 0) (benefitExample ! 0))
     = benefitHead @ str ''Free treatment'' @ benefitMiddle @ str ''2024-01-01T00:00:00.000Z''
       @ benefitTail
   \<and> readStringValue
         (str ''Free treatment'' @ benefitMiddle @ str ''2024-01-01T00:00:00.000Z'' @ benefitTail)
       = Some (str ''Free treatment'',
               tl benefitMiddle @ str ''2024-01-01T00:00:00.000Z'' @ benefitTail)"
proof -
  have c: "ent_category (benefitExample ! 0) = Benefit"
    by (simp add: benefitExample_def exampleEntity_def)
  have t: "trim (ent_text (benefitExample ! 0)) = str ''Free treatment''"
    by (simp add: benefitExample_def exampleEntity_def trim_def isWhiteSpace_def str_def)
  have e: "escapeGraphQL (str ''Free treatment'') = str ''Free treatment''"
    by (simp add: escapeGraphQL_def replaceEach_def str_def)
  have a: "list_all isSourceCharacter (str ''Free treatment'')"
    by (simp add: isSourceCharacter_def str_def)
  show ?thesis
    using C8_benefit_mutation_shape [of "benefitExample ! 0" id "clockA 0"] c a
    by (simp add: t e clockA_def)
qed

text \<open>
  Claim C9. An entity whose text normalizes to the empty string gets the identifier
  \<open><prefix>::\<close> with nothing after it; identifier derivation has no error case. A text
  that is all whitespace after lowercasing normalizes to the empty string, and so does
  a text that, after lowercasing, has no whitespace and no code unit of
  \<open>[a-z0-9_-]\<close>.
\<close>

theorem C9_empty_normalization:
  "(normalizeText unicodeLower (ent_text entity) = []
      \<longrightarrow> generateNameId unicodeLower entity
            = nameIdPrefix (CATEGORY_TYPE_MAP (ent_category entity)) @ str ''::'')
   \<and> (list_all isWhiteSpace (toLowerCase unicodeLower (ent_text entity))
      \<longrightarrow> normalizeText unicodeLower (ent_text entity) = [])
   \<and> (list_all (\<lambda>c. \<not> isWhiteSpace c \<and> \<not> isIdChar c) (toLowerCase unicodeLower (ent_text entity))
      \<longrightarrow> normalizeText unicodeLower (ent_text entity) = [])"
  by (simp add: generateNameId_def Let_def normalizeText_whiteSpace normalizeText_stripped)

theorem C9_empty_normalization_witness:
  "generateNameId id blankExample = str ''org::''
   \<and> generateNameId id punctuationExample = str ''region::''"
proof -
  have a: "list_all isWhiteSpace (toLowerCase id (ent_text blankExample))"
    by (simp add: blankExample_def exampleEntity_def toLowerCase_def asciiLower_def isWhiteSpace_def)
  have b: "list_all (\<lambda>c. \<not> isWhiteSpace c \<and> \<not> isIdChar c)
             (toLowerCase id (ent_text punctuationExample))"
    by (simp add: punctuationExample_def exampleEntity_def toLowerCase_def asciiLower_def
        isWhiteSpace_def isIdChar_def str_def)
  have "generateNameId id blankExample
          = nameIdPrefix (CATEGORY_TYPE_MAP (ent_category blankExample)) @ str ''::''"
    using C9_empty_normalization [of id blankExample] a by blast
  moreover have "generateNameId id punctuationExample
          = nameIdPrefix (CATEGORY_TYPE_MAP (ent_category punctuationExample)) @ str ''::''"
    using C9_empty_normalization [of id punctuationExample] b by blast
  ultimately show ?thesis
    by (simp add: blankExample_def punctuationExample_def exampleEntity_def str_def)
qed

text \<open>
  Claim C10. The summary of a batch agrees with the batch: \<open>totalNameNodes\<close> is the
  length of the entry-node mutations, \<open>totalEntityNodes\<close> the length of the typed-node
  mutations, \<open>totalRelationships\<close> the length of the relationship mutations.
\<close>

theorem C10_summary_consistent:
  "totalNameNodes (summary (generateMutationBatch unicodeLower clock annotation))
     = length (nameNodes (generateMutationBatch unicodeLower clock annotation))
   \<and> totalEntityNodes (summary (generateMutationBatch unicodeLower clock annotation))
     = length (entityNodes (generateMutationBatch unicodeLower clock annotation))
   \<and> totalRelationships (summary (generateMutationBatch unicodeLower clock annotation))
     = length (relationships (generateMutationBatch unicodeLower clock annotation))"
  by (simp add: generateMutationBatch_def Let_def)

theorem C10_summary_consistent_witness:
  "totalNameNodes (summary (generateMutationBatch id clockA (exampleDocument scenarioA None)))
     = length (nameNodes (generateMutationBatch id clockA (exampleDocument scenarioA None)))
   \<and> totalEntityNodes (summary (generateMutationBatch id clockA (exampleDocument scenarioA None)))
     = length (entityNodes (generateMutationBatch id clockA (exampleDocument scenarioA None)))
   \<and> totalRelationships (summary (generateMutationBatch id clockA (exampleDocument scenarioA None)))
     = length (relationships (generateMutationBatch id clockA (exampleDocument scenarioA None)))"
  by (rule C10_summary_consistent)

end
